theory Spec2Isabelle
  imports Main
begin

section \<open>Data model of \<^verbatim>\<open>backend/main.py\<close>\<close>

text \<open>
  The request and response schemas (\<^verbatim>\<open>models.schemas\<close>) as the handler uses them:
  a \<^verbatim>\<open>ChatMessage\<close> has the fields \<^verbatim>\<open>message\<close> and \<^verbatim>\<open>selected_text\<close> (a string or
  \<^verbatim>\<open>None\<close>); a \<^verbatim>\<open>ChatResponse\<close> is built from \<^verbatim>\<open>response\<close> and \<^verbatim>\<open>sources\<close>.
  A Python string is a list of characters; one list element stands for one character
  of the Python string, so \<^verbatim>\<open>s[:200]\<close> is \<open>take 200 s\<close> and \<^verbatim>\<open>len(s)\<close> is \<open>length s\<close>.
  The handler never inspects a character of a text it is given.
\<close>

record ChatMessage =
  message :: string
  selected_text :: "string option"

text \<open>
  An attribution entry is the dict literal \<^verbatim>\<open>{"text": ..., "source": ...}\<close>, kept as
  the list of its key/value pairs in the order written.
\<close>

type_synonym source_dict = "(string \<times> string) list"

record ChatResponse =
  response :: string
  sources :: "source_dict list"

text \<open>\<^verbatim>\<open>HTTPException(status_code=..., detail=...)\<close>, the only exception the handler raises.\<close>

datatype HTTPException = HTTPException (status_code: int) (detail: string)

subsection \<open>Collaborators\<close>

text \<open>
  The module-level singletons \<^verbatim>\<open>gemini_service\<close>, \<^verbatim>\<open>db_service\<close> and
  \<^verbatim>\<open>qdrant_service\<close> (lines 21-23) are external. A call either returns (\<open>Inr\<close>) or
  raises an exception \<open>e\<close>, recorded by its rendering \<^verbatim>\<open>str(e)\<close> (\<open>Inl\<close>). Within one
  request each collaborator is called at most once, so a function of the arguments
  describes every behaviour a collaborator can show to the handler.
\<close>

record services =
  generate_response :: "string \<Rightarrow> string \<Rightarrow> string + string"
  save_chat :: "string \<Rightarrow> string \<Rightarrow> string option \<Rightarrow> string + unit"
  initialize_tables :: "string + unit"
  initialize_collection :: "int \<Rightarrow> string + unit"

text \<open>The calls made to the collaborators, in the order they are made.\<close>

datatype call =
    GenerateCall string string
  | SaveChatCall string string "string option"
  | InitTablesCall
  | QdrantInitCollectionCall int

fun generate_calls :: "call list \<Rightarrow> (string \<times> string) list" where
  "generate_calls [] = []"
| "generate_calls (GenerateCall m c # cs) = (m, c) # generate_calls cs"
| "generate_calls (_ # cs) = generate_calls cs"

fun save_calls :: "call list \<Rightarrow> (string \<times> string \<times> string option) list" where
  "save_calls [] = []"
| "save_calls (SaveChatCall m r s # cs) = (m, r, s) # save_calls cs"
| "save_calls (_ # cs) = save_calls cs"

fun qdrant_calls :: "call list \<Rightarrow> call list" where
  "qdrant_calls [] = []"
| "qdrant_calls (QdrantInitCollectionCall n # cs) = QdrantInitCollectionCall n # qdrant_calls cs"
| "qdrant_calls (_ # cs) = qdrant_calls cs"

subsection \<open>Python truthiness of \<^verbatim>\<open>message.selected_text\<close>\<close>

text \<open>\<^verbatim>\<open>if message.selected_text:\<close> is false for \<^verbatim>\<open>None\<close> and for the empty string.\<close>

fun truthy :: "string option \<Rightarrow> bool" where
  "truthy None = False"
| "truthy (Some s) = (s \<noteq> [])"

section \<open>The handlers\<close>

text \<open>
  The triple-quoted literal of lines 47-49, repeated character for character at lines
  134-136 and 180-182: three lines, the first ending in a space, the second and third
  indented by twelve spaces.
\<close>

definition general_context :: string where
  "general_context = ''You are a helpful assistant for a Physical AI & Humanoid Robotics textbook. \<newline>            Answer questions about ROS 2, Gazebo, NVIDIA Isaac, humanoid robots, and robotics in general.\<newline>            Be clear, technical but accessible, and provide practical examples when possible.''"

text \<open>
  A handler returns the response or the exception it raises, together with the calls
  it made. The \<^verbatim>\<open>print\<close> diagnostics are left out.
\<close>

type_synonym handler = "services \<Rightarrow> ChatMessage \<Rightarrow> (HTTPException + ChatResponse) \<times> call list"

text \<open>
  \<^verbatim>\<open>chat\<close>, first definition (lines 37-65). One \<^verbatim>\<open>try\<close> block encloses the generation
  call and the \<^verbatim>\<open>save_chat\<close> call; \<^verbatim>\<open>except Exception as e\<close> turns either failure
  into \<^verbatim>\<open>HTTPException(status_code=500, detail=str(e))\<close>.
\<close>

definition chat_L38 :: handler where
  "chat_L38 svc msg =
    (let (context, srcs) =
       (if truthy (selected_text msg)
        then (the (selected_text msg),
              [[(''text'', take 200 (the (selected_text msg)) @ ''...''), (''source'', ''Selected Text'')]])
        else (general_context,
              [[(''text'', ''AI Knowledge Base''), (''source'', ''Gemini'')]]))
     in case generate_response svc (message msg) context of
          Inl e \<Rightarrow> (Inl (HTTPException 500 e), [GenerateCall (message msg) context])
        | Inr resp \<Rightarrow>
            (case save_chat svc (message msg) resp (selected_text msg) of
               Inl e \<Rightarrow>
                 (Inl (HTTPException 500 e),
                  [GenerateCall (message msg) context,
                   SaveChatCall (message msg) resp (selected_text msg)])
             | Inr _ \<Rightarrow>
                 (Inr \<lparr>response = resp, sources = srcs\<rparr>,
                  [GenerateCall (message msg) context,
                   SaveChatCall (message msg) resp (selected_text msg)])))"

text \<open>
  \<^verbatim>\<open>chat\<close>, second definition (lines 120-159): the first one with \<^verbatim>\<open>print\<close> and
  \<^verbatim>\<open>traceback.print_exc()\<close> added.
\<close>

definition chat_L121 :: handler where
  "chat_L121 svc msg =
    (let (context, srcs) =
       (if truthy (selected_text msg)
        then (the (selected_text msg),
              [[(''text'', take 200 (the (selected_text msg)) @ ''...''), (''source'', ''Selected Text'')]])
        else (general_context,
              [[(''text'', ''AI Knowledge Base''), (''source'', ''Gemini'')]]))
     in case generate_response svc (message msg) context of
          Inl e \<Rightarrow> (Inl (HTTPException 500 e), [GenerateCall (message msg) context])
        | Inr resp \<Rightarrow>
            (case save_chat svc (message msg) resp (selected_text msg) of
               Inl e \<Rightarrow>
                 (Inl (HTTPException 500 e),
                  [GenerateCall (message msg) context,
                   SaveChatCall (message msg) resp (selected_text msg)])
             | Inr _ \<Rightarrow>
                 (Inr \<lparr>response = resp, sources = srcs\<rparr>,
                  [GenerateCall (message msg) context,
                   SaveChatCall (message msg) resp (selected_text msg)])))"

text \<open>
  \<^verbatim>\<open>chat\<close>, third definition (lines 161-220). The generation call has a \<^verbatim>\<open>try\<close> of
  its own, whose handler raises \<^verbatim>\<open>HTTPException(500, f"AI service error: {str(ai_error)}")\<close>;
  the outer \<^verbatim>\<open>except HTTPException\<close> re-raises it unchanged. The \<^verbatim>\<open>save_chat\<close> call has
  a \<^verbatim>\<open>try\<close> of its own as well, whose handler only prints ("Don't fail the request if
  DB save fails"). The general-knowledge entry is labelled \<^verbatim>\<open>"AI"\<close> here.
  The outer \<^verbatim>\<open>except Exception\<close> ("Server error: ...") has nothing left to catch:
  outside the two inner \<^verbatim>\<open>try\<close> blocks there are only the context selection, the
  diagnostics and the construction of the response from a string and a list of dicts.
\<close>

definition chat_L162 :: handler where
  "chat_L162 svc msg =
    (let (context, srcs) =
       (if truthy (selected_text msg)
        then (the (selected_text msg),
              [[(''text'', take 200 (the (selected_text msg)) @ ''...''), (''source'', ''Selected Text'')]])
        else (general_context,
              [[(''text'', ''AI Knowledge Base''), (''source'', ''AI'')]]))
     in case generate_response svc (message msg) context of
          Inl ai_error \<Rightarrow>
            (Inl (HTTPException 500 (''AI service error: '' @ ai_error)),
             [GenerateCall (message msg) context])
        | Inr resp \<Rightarrow>
            (case save_chat svc (message msg) resp (selected_text msg) of
               Inl db_error \<Rightarrow>
                 (Inr \<lparr>response = resp, sources = srcs\<rparr>,
                  [GenerateCall (message msg) context,
                   SaveChatCall (message msg) resp (selected_text msg)])
             | Inr _ \<Rightarrow>
                 (Inr \<lparr>response = resp, sources = srcs\<rparr>,
                  [GenerateCall (message msg) context,
                   SaveChatCall (message msg) resp (selected_text msg)])))"

text \<open>
  The three definitions, in the order in which \<^verbatim>\<open>@app.post("/chat")\<close> registers them
  (lines 37, 120 and 161). The web framework, which is not part of the sources,
  matches routes in the order of registration, so a request reaches the first
  definition. A property that all three share is stated for all three.
\<close>

definition post_chat_handlers :: "handler list" where
  "post_chat_handlers = [chat_L38, chat_L121, chat_L162]"

text \<open>
  \<^verbatim>\<open>startup_event\<close> (lines 25-31): the only place of the module that calls
  \<^verbatim>\<open>qdrant_service\<close>. An exception of either call propagates.
\<close>

definition startup_event :: "services \<Rightarrow> (string + unit) \<times> call list" where
  "startup_event svc =
    (case initialize_tables svc of
       Inl e \<Rightarrow> (Inl e, [InitTablesCall])
     | Inr _ \<Rightarrow>
         (case initialize_collection svc 768 of
            Inl e \<Rightarrow> (Inl e, [InitTablesCall, QdrantInitCollectionCall 768])
          | Inr _ \<Rightarrow> (Inr (), [InitTablesCall, QdrantInitCollectionCall 768])))"

subsection \<open>Reading an attribution entry\<close>

definition excerpt :: "source_dict \<Rightarrow> string option" where
  "excerpt d = map_of d ''text''"

definition label :: "source_dict \<Rightarrow> string option" where
  "label d = map_of d ''source''"

subsection \<open>Concrete collaborators and requests\<close>

text \<open>Generation answers \<^verbatim>\<open>"ok"\<close>; every other call succeeds.\<close>

definition svc_ok :: services where
  "svc_ok = \<lparr>generate_response = (\<lambda>m c. Inr ''ok''),
             save_chat = (\<lambda>m r s. Inr ()),
             initialize_tables = Inr (),
             initialize_collection = (\<lambda>n. Inr ())\<rparr>"

text \<open>Generation answers \<^verbatim>\<open>"ok"\<close>; \<^verbatim>\<open>save_chat\<close> raises \<^verbatim>\<open>Exception("db down")\<close>.\<close>

definition svc_db_down :: services where
  "svc_db_down = svc_ok\<lparr>save_chat := (\<lambda>m r s. Inl ''db down'')\<rparr>"

text \<open>Generation raises \<^verbatim>\<open>Exception("quota exceeded")\<close>.\<close>

definition svc_gen_down :: services where
  "svc_gen_down = svc_ok\<lparr>generate_response := (\<lambda>m c. Inl ''quota exceeded'')\<rparr>"

definition msg_ros :: ChatMessage where
  "msg_ros = \<lparr>message = ''What is ROS 2?'', selected_text = None\<rparr>"

definition msg_short :: ChatMessage where
  "msg_short = \<lparr>message = ''Explain this'', selected_text = Some ''Gazebo''\<rparr>"

definition msg_210 :: ChatMessage where
  "msg_210 = \<lparr>message = ''Explain this'', selected_text = Some (replicate 210 CHR ''x'')\<rparr>"

section \<open>Shared facts\<close>

lemma truthy_iff: "truthy x \<longleftrightarrow> (\<exists>s. x = Some s \<and> s \<noteq> [])"
  by (cases x) auto

lemma in_handlers:
  "h \<in> set post_chat_handlers \<longleftrightarrow> h = chat_L38 \<or> h = chat_L121 \<or> h = chat_L162"
  by (auto simp: post_chat_handlers_def)

lemmas chat_defs = chat_L38_def chat_L121_def chat_L162_def

text \<open>The second definition computes what the first one computes.\<close>

lemma chat_L121_eq_chat_L38: "chat_L121 = chat_L38"
  by (intro ext) (simp add: chat_L121_def chat_L38_def)

text \<open>\<^verbatim>\<open>s[:n]\<close> keeps the first \<open>min (len s) n\<close> characters.\<close>

lemma take_min_length: "take (min (length s) n) s = take n s"
  by (simp add: min_def)

section \<open>Persistence failure\<close>

text \<open>
  In the first definition (and so in the second) a failing \<^verbatim>\<open>save_chat\<close> is caught by
  the blanket \<^verbatim>\<open>except Exception\<close> and becomes the request's failure.
\<close>

lemma chat_L38_save_failure:
  assumes "generate_response svc (message msg)
             (case selected_text msg of None \<Rightarrow> general_context
              | Some s \<Rightarrow> if s = [] then general_context else s) = Inr g"
    and "save_chat svc (message msg) g (selected_text msg) = Inl e"
  shows "fst (chat_L38 svc msg) = Inl (HTTPException 500 e)"
  using assms by (auto simp: chat_L38_def split: option.splits if_splits)

text \<open>
  In the third definition the response depends on the generation call alone: whatever
  \<^verbatim>\<open>save_chat\<close> does, the generated text is returned.
\<close>

lemma chat_L162_save_failure_suppressed:
  assumes "generate_response svc (message msg)
             (case selected_text msg of None \<Rightarrow> general_context
              | Some s \<Rightarrow> if s = [] then general_context else s) = Inr g"
  shows "fst (chat_L162 svc msg) =
           Inr \<lparr>response = g,
                sources = (case selected_text msg of
                   None \<Rightarrow> [[(''text'', ''AI Knowledge Base''), (''source'', ''AI'')]]
                 | Some s \<Rightarrow>
                     if s = [] then [[(''text'', ''AI Knowledge Base''), (''source'', ''AI'')]]
                     else [[(''text'', take 200 s @ ''...''), (''source'', ''Selected Text'')]])\<rparr>"
  using assms by (auto simp: chat_L162_def split: option.splits if_splits sum.splits)

lemma chat_L162_fails_only_on_generation:
  assumes "fst (chat_L162 svc msg) = Inl x"
  shows "\<exists>e. generate_response svc (message msg)
             (case selected_text msg of None \<Rightarrow> general_context
              | Some s \<Rightarrow> if s = [] then general_context else s) = Inl e
             \<and> x = HTTPException 500 (''AI service error: '' @ e)"
  using assms by (auto simp: chat_L162_def split: option.splits if_splits sum.splits)

text \<open>
  C1. When generation succeeds and \<^verbatim>\<open>save_chat\<close> fails, the handler is to return the
  successful response unchanged. Evaluated at the request
  \<^verbatim>\<open>{message: "What is ROS 2?", selected_text: None}\<close>, with generation answering
  \<^verbatim>\<open>"ok"\<close> and \<^verbatim>\<open>save_chat\<close> raising \<^verbatim>\<open>Exception("db down")\<close>: the first and the
  second definition raise \<^verbatim>\<open>HTTPException(500, "db down")\<close> after both calls were
  made; only the third definition returns the response.
\<close>

theorem chat_save_failure_evaluated:
  "chat_L38 svc_db_down msg_ros =
     (Inl (HTTPException 500 ''db down''),
      [GenerateCall ''What is ROS 2?'' general_context, SaveChatCall ''What is ROS 2?'' ''ok'' None])
   \<and> chat_L121 svc_db_down msg_ros =
     (Inl (HTTPException 500 ''db down''),
      [GenerateCall ''What is ROS 2?'' general_context, SaveChatCall ''What is ROS 2?'' ''ok'' None])
   \<and> chat_L162 svc_db_down msg_ros =
     (Inr \<lparr>response = ''ok'', sources = [[(''text'', ''AI Knowledge Base''), (''source'', ''AI'')]]\<rparr>,
      [GenerateCall ''What is ROS 2?'' general_context, SaveChatCall ''What is ROS 2?'' ''ok'' None])"
  by (simp add: chat_defs svc_db_down_def svc_ok_def msg_ros_def)

section \<open>Generation failure\<close>

text \<open>
  C2. If the generation call raises an exception with message \<open>e\<close>, every definition
  of the handler raises an \<^verbatim>\<open>HTTPException\<close> with status 500 whose detail is \<open>e\<close>
  (first and second definition) or \<^verbatim>\<open>"AI service error: "\<close> followed by \<open>e\<close> (third
  definition). The generation call is the only call made: \<^verbatim>\<open>save_chat\<close> is not called
  and generation is not tried again.
\<close>

theorem chat_generation_failure:
  assumes "h \<in> set post_chat_handlers"
    and "context = (case selected_text msg of None \<Rightarrow> general_context
                    | Some s \<Rightarrow> if s = [] then general_context else s)"
    and "generate_response svc (message msg) context = Inl e"
  shows "(fst (h svc msg) = Inl (HTTPException 500 e) \<or>
          fst (h svc msg) = Inl (HTTPException 500 (''AI service error: '' @ e)))
       \<and> snd (h svc msg) = [GenerateCall (message msg) context]
       \<and> save_calls (snd (h svc msg)) = []
       \<and> generate_calls (snd (h svc msg)) = [(message msg, context)]"
  using assms
  by (auto simp: in_handlers chat_defs split: option.splits if_splits)

theorem chat_generation_failure_witness:
  "chat_L162 \<in> set post_chat_handlers
   \<and> generate_response svc_gen_down (message msg_short) ''Gazebo'' = Inl ''quota exceeded''
   \<and> fst (chat_L162 svc_gen_down msg_short) =
        Inl (HTTPException 500 ''AI service error: quota exceeded'')
   \<and> snd (chat_L162 svc_gen_down msg_short) = [GenerateCall ''Explain this'' ''Gazebo'']
   \<and> save_calls (snd (chat_L162 svc_gen_down msg_short)) = []"
proof -
  have h1: "chat_L162 \<in> set post_chat_handlers"
    by (simp add: post_chat_handlers_def)
  have h2: "''Gazebo'' = (case selected_text msg_short of None \<Rightarrow> general_context
                    | Some s \<Rightarrow> if s = [] then general_context else s)"
    by (simp add: msg_short_def)
  have h3: "generate_response svc_gen_down (message msg_short) ''Gazebo'' = Inl ''quota exceeded''"
    by (simp add: svc_gen_down_def svc_ok_def)
  show ?thesis
    using h1 h3 chat_generation_failure [OF h1 h2 h3]
    by (simp add: chat_L162_def svc_gen_down_def svc_ok_def msg_short_def)
qed

section \<open>Context selection and attribution\<close>

text \<open>
  The third definition labels the general-knowledge entry \<^verbatim>\<open>"AI"\<close> (line 183), where
  the first and the second write \<^verbatim>\<open>"Gemini"\<close> (lines 50 and 137). Being registered
  after them for the same route, it is not the definition a request reaches.
\<close>

lemma chat_L162_general_label:
  "fst (chat_L162 svc_ok msg_ros) =
     Inr \<lparr>response = ''ok'', sources = [[(''text'', ''AI Knowledge Base''), (''source'', ''AI'')]]\<rparr>"
  by (simp add: chat_L162_def svc_ok_def msg_ros_def)

text \<open>
  C3. For a request whose \<^verbatim>\<open>selected_text\<close> is absent or empty, the handler a request
  reaches (the first definition; the second computes the same) calls generation
  exactly once, with the message and the fixed system prompt, whatever the message
  is. Every response it returns carries the generated text unchanged, and its sources
  are the single entry \<^verbatim>\<open>{"text": "AI Knowledge Base", "source": "Gemini"}\<close>. That
  response is returned whenever generation and \<^verbatim>\<open>save_chat\<close> succeed.
\<close>

theorem chat_general_knowledge:
  assumes "selected_text msg = None \<or> selected_text msg = Some []"
    and "h = chat_L38 \<or> h = chat_L121"
  shows "generate_calls (snd (h svc msg)) = [(message msg, general_context)]
       \<and> (\<forall>r. fst (h svc msg) = Inr r \<longrightarrow>
            generate_response svc (message msg) general_context = Inr (response r) \<and>
            sources r = [[(''text'', ''AI Knowledge Base''), (''source'', ''Gemini'')]])
       \<and> (\<forall>g. generate_response svc (message msg) general_context = Inr g \<and>
                save_chat svc (message msg) g (selected_text msg) = Inr () \<longrightarrow>
            fst (h svc msg) =
              Inr \<lparr>response = g,
                   sources = [[(''text'', ''AI Knowledge Base''), (''source'', ''Gemini'')]]\<rparr>)"
  using assms
  by (auto simp: chat_defs split: sum.splits)

theorem chat_general_knowledge_witness:
  "selected_text msg_ros = None
   \<and> generate_calls (snd (chat_L38 svc_ok msg_ros)) = [(''What is ROS 2?'', general_context)]
   \<and> fst (chat_L38 svc_ok msg_ros) =
        Inr \<lparr>response = ''ok'', sources = [[(''text'', ''AI Knowledge Base''), (''source'', ''Gemini'')]]\<rparr>"
proof -
  have n: "selected_text msg_ros = None" and m: "message msg_ros = ''What is ROS 2?''"
    by (simp_all add: msg_ros_def)
  from n have h: "selected_text msg_ros = None \<or> selected_text msg_ros = Some []"
    by simp
  have k: "chat_L38 = chat_L38 \<or> chat_L38 = chat_L121"
    by simp
  have g: "generate_response svc_ok (message msg_ros) general_context = Inr ''ok''"
    and s: "save_chat svc_ok (message msg_ros) ''ok'' (selected_text msg_ros) = Inr ()"
    by (simp_all add: svc_ok_def)
  note th = chat_general_knowledge [OF h k, of svc_ok]
  from th have c1: "generate_calls (snd (chat_L38 svc_ok msg_ros)) = [(message msg_ros, general_context)]"
    by (rule conjunct1)
  from th g s have c2: "fst (chat_L38 svc_ok msg_ros) =
        Inr \<lparr>response = ''ok'', sources = [[(''text'', ''AI Knowledge Base''), (''source'', ''Gemini'')]]\<rparr>"
    by blast
  from n m c1 c2 show ?thesis
    by simp
qed

text \<open>
  C4. For a request whose \<^verbatim>\<open>selected_text\<close> is a non-empty string \<open>s\<close>, every
  definition of the handler calls generation exactly once, with the message and \<open>s\<close>
  as context. Every response returned has exactly one source entry: its text is the
  first 200 characters of \<open>s\<close> followed by \<^verbatim>\<open>"..."\<close>, its label is
  \<^verbatim>\<open>"Selected Text"\<close>. Such a response is returned whenever generation and
  \<^verbatim>\<open>save_chat\<close> succeed.
\<close>

theorem chat_selected_text:
  assumes "h \<in> set post_chat_handlers"
    and "selected_text msg = Some s" and "s \<noteq> []"
  shows "generate_calls (snd (h svc msg)) = [(message msg, s)]
       \<and> (\<forall>r. fst (h svc msg) = Inr r \<longrightarrow>
            sources r = [[(''text'', take 200 s @ ''...''), (''source'', ''Selected Text'')]])
       \<and> (\<forall>g. generate_response svc (message msg) s = Inr g \<and>
                save_chat svc (message msg) g (Some s) = Inr () \<longrightarrow>
            fst (h svc msg) =
              Inr \<lparr>response = g,
                   sources = [[(''text'', take 200 s @ ''...''), (''source'', ''Selected Text'')]]\<rparr>)"
  using assms
  by (auto simp: in_handlers chat_defs split: sum.splits)

theorem chat_selected_text_witness:
  "chat_L38 \<in> set post_chat_handlers
   \<and> selected_text msg_210 = Some (replicate 210 CHR ''x'')
   \<and> replicate 210 CHR ''x'' \<noteq> []
   \<and> generate_calls (snd (chat_L38 svc_ok msg_210)) = [(''Explain this'', replicate 210 CHR ''x'')]
   \<and> fst (chat_L38 svc_ok msg_210) =
        Inr \<lparr>response = ''ok'',
             sources = [[(''text'', replicate 200 CHR ''x'' @ ''...''), (''source'', ''Selected Text'')]]\<rparr>"
proof -
  have h1: "chat_L38 \<in> set post_chat_handlers"
    by (simp add: post_chat_handlers_def)
  have h2: "selected_text msg_210 = Some (replicate 210 CHR ''x'')"
    and m: "message msg_210 = ''Explain this''"
    by (simp_all add: msg_210_def)
  have h3: "replicate 210 CHR ''x'' \<noteq> []"
    by simp
  have g: "generate_response svc_ok (message msg_210) (replicate 210 CHR ''x'') = Inr ''ok''"
    and s: "save_chat svc_ok (message msg_210) ''ok'' (Some (replicate 210 CHR ''x'')) = Inr ()"
    by (simp_all add: svc_ok_def)
  note th = chat_selected_text [OF h1 h2 h3, of svc_ok]
  from th have c1: "generate_calls (snd (chat_L38 svc_ok msg_210)) =
        [(message msg_210, replicate 210 CHR ''x'')]"
    by (rule conjunct1)
  from th g s have c2: "fst (chat_L38 svc_ok msg_210) =
        Inr \<lparr>response = ''ok'',
             sources = [[(''text'', take 200 (replicate 210 CHR ''x'') @ ''...''),
                         (''source'', ''Selected Text'')]]\<rparr>"
    by blast
  from h1 h2 h3 m c1 c2 show ?thesis
    by simp
qed

text \<open>
  C5. In every definition of the handler one context is chosen per request, and the
  choice is a function of \<^verbatim>\<open>selected_text\<close> alone. The single generation call
  receives the selection when it is present and non-empty, and the fixed prompt
  otherwise. A returned response is labelled \<^verbatim>\<open>"Selected Text"\<close> if and only if the
  selection is present and non-empty; otherwise its sources are the fixed
  general-knowledge entry. Two requests with the same \<^verbatim>\<open>selected_text\<close>, whatever
  their messages and whatever the collaborators answer, get the same context and, when
  both return a response, the same sources.
\<close>

theorem chat_context_choice:
  assumes "h \<in> set post_chat_handlers"
  shows "generate_calls (snd (h svc msg)) =
           [(message msg, case selected_text msg of None \<Rightarrow> general_context
                          | Some s \<Rightarrow> if s = [] then general_context else s)]
       \<and> (\<forall>r. fst (h svc msg) = Inr r \<longrightarrow>
            (map label (sources r) = [Some ''Selected Text'']) =
            (\<exists>s. selected_text msg = Some s \<and> s \<noteq> []))
       \<and> (\<forall>r. fst (h svc msg) = Inr r \<longrightarrow>
            (\<exists>s. selected_text msg = Some s \<and> s \<noteq> []) \<or>
            sources r = [[(''text'', ''AI Knowledge Base''), (''source'', ''Gemini'')]] \<or>
            sources r = [[(''text'', ''AI Knowledge Base''), (''source'', ''AI'')]])
       \<and> (\<forall>svc' msg'. selected_text msg' = selected_text msg \<longrightarrow>
            map snd (generate_calls (snd (h svc' msg'))) = map snd (generate_calls (snd (h svc msg))) \<and>
            (\<forall>r r'. fst (h svc msg) = Inr r \<and> fst (h svc' msg') = Inr r' \<longrightarrow> sources r' = sources r))"
  using assms
  by (auto simp: in_handlers chat_defs label_def split: sum.splits option.splits)

theorem chat_context_choice_witness:
  "chat_L121 \<in> set post_chat_handlers
   \<and> generate_calls (snd (chat_L121 svc_ok msg_short)) = [(''Explain this'', ''Gazebo'')]
   \<and> generate_calls (snd (chat_L121 svc_ok msg_ros)) = [(''What is ROS 2?'', general_context)]"
proof -
  have h1: "chat_L121 \<in> set post_chat_handlers"
    by (simp add: post_chat_handlers_def)
  from chat_context_choice [OF h1, of svc_ok msg_short]
  have c1: "generate_calls (snd (chat_L121 svc_ok msg_short)) =
           [(message msg_short, case selected_text msg_short of None \<Rightarrow> general_context
                          | Some s \<Rightarrow> if s = [] then general_context else s)]"
    by (rule conjunct1)
  from chat_context_choice [OF h1, of svc_ok msg_ros]
  have c2: "generate_calls (snd (chat_L121 svc_ok msg_ros)) =
           [(message msg_ros, case selected_text msg_ros of None \<Rightarrow> general_context
                          | Some s \<Rightarrow> if s = [] then general_context else s)]"
    by (rule conjunct1)
  from h1 c1 c2 show ?thesis
    by (simp add: msg_short_def msg_ros_def)
qed

section \<open>The excerpt\<close>

text \<open>
  C6. For a request whose \<^verbatim>\<open>selected_text\<close> has 210 characters, the excerpt of
  every response returned, by any definition of the handler, has exactly 203
  characters: the first 200 of the selection and the three of \<^verbatim>\<open>"..."\<close>. Such a
  response is returned whenever generation and \<^verbatim>\<open>save_chat\<close> succeed.
\<close>

theorem chat_excerpt_210:
  assumes "h \<in> set post_chat_handlers"
    and "selected_text msg = Some s" and "length s = 210"
  shows "(\<forall>r. fst (h svc msg) = Inr r \<longrightarrow>
            map (map_option length \<circ> excerpt) (sources r) = [Some 203])
       \<and> (\<forall>g. generate_response svc (message msg) s = Inr g \<and>
                save_chat svc (message msg) g (Some s) = Inr () \<longrightarrow>
            fst (h svc msg) =
              Inr \<lparr>response = g,
                   sources = [[(''text'', take 200 s @ ''...''), (''source'', ''Selected Text'')]]\<rparr> \<and>
            length (take 200 s @ ''...'') = 203)"
proof -
  from assms(3) have "s \<noteq> []"
    by auto
  with assms show ?thesis
    by (auto simp: in_handlers chat_defs excerpt_def split: sum.splits)
qed

theorem chat_excerpt_210_witness:
  "chat_L162 \<in> set post_chat_handlers
   \<and> selected_text msg_210 = Some (replicate 210 CHR ''x'')
   \<and> length (replicate 210 CHR ''x'') = 210
   \<and> fst (chat_L162 svc_ok msg_210) =
        Inr \<lparr>response = ''ok'',
             sources = [[(''text'', replicate 200 CHR ''x'' @ ''...''), (''source'', ''Selected Text'')]]\<rparr>
   \<and> length (replicate 200 CHR ''x'' @ ''...'') = 203"
proof -
  have h1: "chat_L162 \<in> set post_chat_handlers"
    by (simp add: post_chat_handlers_def)
  have h2: "selected_text msg_210 = Some (replicate 210 CHR ''x'')"
    by (simp add: msg_210_def)
  have h3: "length (replicate 210 CHR ''x'') = 210"
    by simp
  have g: "generate_response svc_ok (message msg_210) (replicate 210 CHR ''x'') = Inr ''ok''"
    and s: "save_chat svc_ok (message msg_210) ''ok'' (Some (replicate 210 CHR ''x'')) = Inr ()"
    by (simp_all add: svc_ok_def)
  from chat_excerpt_210 [OF h1 h2 h3, of svc_ok] g s
  have c: "fst (chat_L162 svc_ok msg_210) =
              Inr \<lparr>response = ''ok'',
                   sources = [[(''text'', take 200 (replicate 210 CHR ''x'') @ ''...''),
                               (''source'', ''Selected Text'')]]\<rparr> \<and>
            length (take 200 (replicate 210 CHR ''x'') @ ''...'') = 203"
    by blast
  from h1 h2 h3 c show ?thesis
    by simp
qed

text \<open>
  C7. For a request whose \<^verbatim>\<open>selected_text\<close> is a non-empty string \<open>s\<close> of fewer than
  200 characters, building the excerpt raises nothing in any definition of the
  handler: the slice keeps the \<open>min (length s) 200\<close> characters there are, so the
  excerpt is \<open>s\<close> followed by \<^verbatim>\<open>"..."\<close>. The response is returned whenever generation
  and \<^verbatim>\<open>save_chat\<close> succeed, and when the handler raises, one of the two collaborator
  calls has raised.
\<close>

theorem chat_short_selection_total:
  assumes "h \<in> set post_chat_handlers"
    and "selected_text msg = Some s" and "s \<noteq> []" and "length s < 200"
  shows "(\<forall>g. generate_response svc (message msg) s = Inr g \<and>
                save_chat svc (message msg) g (Some s) = Inr () \<longrightarrow>
            fst (h svc msg) =
              Inr \<lparr>response = g,
                   sources = [[(''text'', s @ ''...''), (''source'', ''Selected Text'')]]\<rparr>)
       \<and> (\<forall>r. fst (h svc msg) = Inr r \<longrightarrow>
            map excerpt (sources r) = [Some (take (min (length s) 200) s @ ''...'')])
       \<and> (\<forall>x. fst (h svc msg) = Inl x \<longrightarrow>
            (\<exists>e. generate_response svc (message msg) s = Inl e) \<or>
            (\<exists>g e. generate_response svc (message msg) s = Inr g \<and>
                    save_chat svc (message msg) g (Some s) = Inl e))"
  using assms
  by (auto simp: in_handlers chat_defs excerpt_def take_min_length split: sum.splits)

theorem chat_short_selection_total_witness:
  "chat_L38 \<in> set post_chat_handlers
   \<and> selected_text msg_short = Some ''Gazebo''
   \<and> ''Gazebo'' \<noteq> [] \<and> length ''Gazebo'' < 200
   \<and> fst (chat_L38 svc_ok msg_short) =
        Inr \<lparr>response = ''ok'',
             sources = [[(''text'', ''Gazebo...''), (''source'', ''Selected Text'')]]\<rparr>"
proof -
  have h1: "chat_L38 \<in> set post_chat_handlers"
    by (simp add: post_chat_handlers_def)
  have h2: "selected_text msg_short = Some ''Gazebo''"
    by (simp add: msg_short_def)
  have h3: "''Gazebo'' \<noteq> []" and h4: "length ''Gazebo'' < 200"
    by simp_all
  have g: "generate_response svc_ok (message msg_short) ''Gazebo'' = Inr ''ok''"
    and s: "save_chat svc_ok (message msg_short) ''ok'' (Some ''Gazebo'') = Inr ()"
    by (simp_all add: svc_ok_def)
  from chat_short_selection_total [OF h1 h2 h3 h4, of svc_ok] g s
  have c: "fst (chat_L38 svc_ok msg_short) =
              Inr \<lparr>response = ''ok'',
                   sources = [[(''text'', ''Gazebo'' @ ''...''), (''source'', ''Selected Text'')]]\<rparr>"
    by blast
  from h1 h2 h3 h4 c show ?thesis
    by simp
qed

text \<open>
  C10. For a request whose \<^verbatim>\<open>selected_text\<close> is a non-empty string \<open>s\<close> of any
  length, also one shorter than 200 characters, \<^verbatim>\<open>"..."\<close> is always appended: in
  every response returned, by any definition of the handler, the excerpt is the first
  \<open>min (length s) 200\<close> characters of \<open>s\<close> followed by \<^verbatim>\<open>"..."\<close>, and its length is
  \<open>min (length s) 200 + 3\<close>. Such a response is returned whenever generation and
  \<^verbatim>\<open>save_chat\<close> succeed.
\<close>

theorem chat_ellipsis_unconditional:
  assumes "h \<in> set post_chat_handlers"
    and "selected_text msg = Some s" and "s \<noteq> []"
  shows "(\<forall>r. fst (h svc msg) = Inr r \<longrightarrow>
            map excerpt (sources r) = [Some (take (min (length s) 200) s @ ''...'')] \<and>
            map (map_option length \<circ> excerpt) (sources r) = [Some (min (length s) 200 + 3)])
       \<and> (\<forall>g. generate_response svc (message msg) s = Inr g \<and>
                save_chat svc (message msg) g (Some s) = Inr () \<longrightarrow>
            fst (h svc msg) =
              Inr \<lparr>response = g,
                   sources = [[(''text'', take (min (length s) 200) s @ ''...''),
                               (''source'', ''Selected Text'')]]\<rparr>)"
  using assms
  by (auto simp: in_handlers chat_defs excerpt_def take_min_length split: sum.splits)

theorem chat_ellipsis_unconditional_witness:
  "chat_L121 \<in> set post_chat_handlers
   \<and> selected_text msg_short = Some ''Gazebo'' \<and> ''Gazebo'' \<noteq> []
   \<and> fst (chat_L121 svc_ok msg_short) =
        Inr \<lparr>response = ''ok'',
             sources = [[(''text'', ''Gazebo...''), (''source'', ''Selected Text'')]]\<rparr>
   \<and> length ''Gazebo...'' = min (length ''Gazebo'') 200 + 3"
proof -
  have h1: "chat_L121 \<in> set post_chat_handlers"
    by (simp add: post_chat_handlers_def)
  have h2: "selected_text msg_short = Some ''Gazebo''"
    by (simp add: msg_short_def)
  have h3: "''Gazebo'' \<noteq> []"
    by simp
  have g: "generate_response svc_ok (message msg_short) ''Gazebo'' = Inr ''ok''"
    and s: "save_chat svc_ok (message msg_short) ''ok'' (Some ''Gazebo'') = Inr ()"
    by (simp_all add: svc_ok_def)
  from chat_ellipsis_unconditional [OF h1 h2 h3, of svc_ok] g s
  have c: "fst (chat_L121 svc_ok msg_short) =
              Inr \<lparr>response = ''ok'',
                   sources = [[(''text'', take (min (length ''Gazebo'') 200) ''Gazebo'' @ ''...''),
                               (''source'', ''Selected Text'')]]\<rparr>"
    by blast
  from h1 h2 h3 c show ?thesis
    by simp
qed

section \<open>Invariants of a request\<close>

text \<open>
  C8. Every response returned by any definition of the handler has a non-empty
  sources list; it has exactly one entry.
\<close>

theorem chat_sources_nonempty:
  assumes "h \<in> set post_chat_handlers" and "fst (h svc msg) = Inr r"
  shows "sources r \<noteq> [] \<and> length (sources r) = 1"
  using assms
  by (auto simp: in_handlers chat_defs split: sum.splits if_splits)

theorem chat_sources_nonempty_witness:
  "chat_L162 \<in> set post_chat_handlers
   \<and> fst (chat_L162 svc_db_down msg_short) =
        Inr \<lparr>response = ''ok'',
             sources = [[(''text'', ''Gazebo...''), (''source'', ''Selected Text'')]]\<rparr>
   \<and> sources \<lparr>response = ''ok'',
               sources = [[(''text'', ''Gazebo...''), (''source'', ''Selected Text'')]]\<rparr> \<noteq> []
   \<and> length (sources \<lparr>response = ''ok'',
               sources = [[(''text'', ''Gazebo...''), (''source'', ''Selected Text'')]]\<rparr>) = 1"
proof -
  have h1: "chat_L162 \<in> set post_chat_handlers"
    by (simp add: post_chat_handlers_def)
  have h2: "fst (chat_L162 svc_db_down msg_short) =
        Inr \<lparr>response = ''ok'',
             sources = [[(''text'', ''Gazebo...''), (''source'', ''Selected Text'')]]\<rparr>"
    by (simp add: chat_L162_def svc_db_down_def svc_ok_def msg_short_def)
  show ?thesis
    using h1 h2 chat_sources_nonempty [OF h1 h2]
    by simp
qed

text \<open>
  \<^verbatim>\<open>startup_event\<close> does call \<^verbatim>\<open>qdrant_service\<close>, once the tables are initialised.
\<close>

lemma startup_event_calls_qdrant:
  "initialize_tables svc = Inr () \<Longrightarrow>
     qdrant_calls (snd (startup_event svc)) = [QdrantInitCollectionCall 768]"
  by (auto simp: startup_event_def split: sum.splits)

text \<open>
  C9. No definition of the handler calls \<^verbatim>\<open>qdrant_service\<close>: for every request, whether
  it ends in a response or in an exception, the calls made contain no vector-database
  operation.
\<close>

theorem chat_never_calls_qdrant:
  assumes "h \<in> set post_chat_handlers"
  shows "qdrant_calls (snd (h svc msg)) = []"
  using assms
  by (auto simp: in_handlers chat_defs split: sum.splits if_splits)

theorem chat_never_calls_qdrant_witness:
  "chat_L38 \<in> set post_chat_handlers
   \<and> qdrant_calls (snd (chat_L38 svc_ok msg_ros)) = []
   \<and> qdrant_calls (snd (chat_L38 svc_gen_down msg_ros)) = []"
proof -
  have h1: "chat_L38 \<in> set post_chat_handlers"
    by (simp add: post_chat_handlers_def)
  show ?thesis
    using h1 chat_never_calls_qdrant [OF h1, of svc_ok msg_ros]
      chat_never_calls_qdrant [OF h1, of svc_gen_down msg_ros]
    by simp
qed

end
